theory Spec2Isabelle
  imports Complex_Main "HOL-Library.Multiset"
begin

section \<open>Data model (app/models/schemas.py)\<close>

text \<open>
  Python floats are modelled as reals: sums, quotients and comparisons are exact. The
  model therefore says nothing on what is specific to binary floating point: the rounding
  of a sum or a quotient, the overflow of a sum to \<open>inf\<close>, an amount that is itself \<open>inf\<close>.
  A value that the Python code can only obtain as NaN (the mean of an empty column) is
  \<open>None\<close> of an option type. A \<open>datetime\<close> is a number of microseconds since the epoch.
  Field names carry a short prefix per record, since several schema classes share the
  names \<open>category\<close>, \<open>amount\<close>, \<open>reason\<close> and \<open>status\<close>.
\<close>

datatype TransactionCategory =
  FOOD | TRANSPORT | ENTERTAINMENT | UTILITIES | HEALTHCARE | SHOPPING | OTHER

fun category_value :: "TransactionCategory \<Rightarrow> string" where
  "category_value FOOD = ''food''"
| "category_value TRANSPORT = ''transport''"
| "category_value ENTERTAINMENT = ''entertainment''"
| "category_value UTILITIES = ''utilities''"
| "category_value HEALTHCARE = ''healthcare''"
| "category_value SHOPPING = ''shopping''"
| "category_value OTHER = ''other''"

type_synonym datetime = int

record Transaction =
  t_id :: "string option"
  t_amount :: real
  t_category :: TransactionCategory
  t_description :: "string option"
  t_date :: datetime
  t_userId :: string
  t_type :: "string option"

record SpendingPattern =
  sp_category :: string
  sp_totalAmount :: real
  sp_transactionCount :: nat
  sp_averageAmount :: real
  sp_percentage :: real

record BudgetRecommendation =
  br_category :: string
  br_recommendedAmount :: real
  br_currentSpending :: real
  br_reason :: string
  br_priority :: string

record AnomalyDetection =
  an_transactionId :: string
  an_amount :: real
  an_category :: string
  an_date :: datetime
  an_anomalyScore :: real
  an_reason :: string

record CategoryHealth =
  ch_category :: string
  ch_status :: string
  ch_reason :: string
  ch_spending :: real
  ch_recommendation :: string

record IncomeVsExpense =
  ie_totalIncome :: real
  ie_totalExpense :: real
  ie_netBalance :: real
  ie_savingsRate :: real
  ie_status :: string

record InsightsResponse =
  userId :: string
  incomeVsExpense :: IncomeVsExpense
  spendingPatterns :: "SpendingPattern list"
  categoryHealth :: "CategoryHealth list"
  budgetRecommendations :: "BudgetRecommendation list"
  anomalies :: "AnomalyDetection list"
  totalSpending :: real
  averageDailySpending :: real
  projectedMonthlySpending :: real
  savingsOpportunities :: "string list"

text \<open>One row of the pandas frame built by \<open>_transactions_to_dataframe\<close>.\<close>

record df_row =
  r_id :: "string option"
  r_type :: "string option"
  r_amount :: real
  r_category :: string
  r_description :: string
  r_date :: datetime
  r_userId :: string

text \<open>
  The scikit-learn outlier model held by the service. Its two calls are functions of the
  feature column (the seed is fixed): \<open>fit_predict\<close> gives one label per sample
  (\<open>-1\<close> for an outlier), \<open>score_samples\<close> one score per sample.
\<close>

record IsolationForest =
  fit_predict :: "real list \<Rightarrow> int list"
  score_samples :: "real list \<Rightarrow> real list"

datatype error = IndexError | KeyError

section \<open>Formatting of numbers (Python format specifications)\<close>

definition digit_char :: "nat \<Rightarrow> char" where
  "digit_char n = ''0123456789'' ! n"

fun str_nat :: "nat \<Rightarrow> string" where
  "str_nat n = (if n < 10 then [digit_char n] else str_nat (n div 10) @ [digit_char (n mod 10)])"

declare str_nat.simps [simp del]

definition round_half_even :: "real \<Rightarrow> int" where
  "round_half_even x =
     (let f = \<lfloor>x\<rfloor>; r = x - of_int f
      in if r < 1 / 2 then f else if 1 / 2 < r then f + 1 else if even f then f else f + 1)"

definition zfill :: "nat \<Rightarrow> string \<Rightarrow> string" where
  "zfill w s = replicate (w - length s) (CHR ''0'') @ s"

text \<open>\<open>fmt_f d x\<close> is \<open>format(x, '.df')\<close>: fixed point with \<open>d\<close> decimals.\<close>

definition fmt_f :: "nat \<Rightarrow> real \<Rightarrow> string" where
  "fmt_f d x =
     (let n = nat (round_half_even (\<bar>x\<bar> * 10 ^ d));
          ip = str_nat (n div 10 ^ d);
          fp = (if d = 0 then [] else ''.'' @ zfill d (str_nat (n mod 10 ^ d)))
      in (if x < 0 then ''-'' else []) @ ip @ fp)"

text \<open>The same for a value that may be NaN.\<close>

definition fmt_f_nan :: "nat \<Rightarrow> real option \<Rightarrow> string" where
  "fmt_f_nan d v = (case v of None \<Rightarrow> ''nan'' | Some x \<Rightarrow> fmt_f d x)"

section \<open>Column operations of the frame\<close>

text \<open>\<open>Series.unique()\<close>: the distinct values in order of first appearance.\<close>

fun unique :: "'a list \<Rightarrow> 'a list" where
  "unique [] = []"
| "unique (x # xs) = x # unique (filter (\<lambda>y. y \<noteq> x) xs)"

text \<open>\<open>Series.mean()\<close>: NaN on an empty column.\<close>

definition mean :: "real list \<Rightarrow> real option" where
  "mean xs = (if xs = [] then None else Some (sum_list xs / real (length xs)))"

text \<open>
  \<open>Series.max()\<close> and \<open>Series.min()\<close> of the date column. The column is never empty
  where they are called: \<open>analyze_transactions\<close> returns before building the frame when
  there is no transaction.
\<close>

fun series_max :: "int list \<Rightarrow> int" where
  "series_max (x # xs) = fold max xs x"

fun series_min :: "int list \<Rightarrow> int" where
  "series_min (x # xs) = fold min xs x"

text \<open>\<open>timedelta.days\<close> of a difference of two dates, in whole days (rounded down).\<close>

definition timedelta_days :: "int \<Rightarrow> int" where
  "timedelta_days delta = delta div (86400 * 1000000)"

section \<open>The insights service (app/services/insights_service.py)\<close>

subsection \<open>\<open>_transactions_to_dataframe\<close>\<close>

text \<open>
  \<open>getattr(t, 'type', 'EXPENSE')\<close> reads the attribute \<open>type\<close> of the transaction. The
  schema declares that field with the default \<open>None\<close>, so the attribute exists on every
  \<open>Transaction\<close> and \<open>getattr\<close> never falls back to its third argument: an absent type
  reaches the frame as \<open>None\<close>.
\<close>

definition getattr_type :: "Transaction \<Rightarrow> string \<Rightarrow> string option" where
  "getattr_type t dflt = t_type t"

definition transactions_to_dataframe :: "Transaction list \<Rightarrow> df_row list" where
  "transactions_to_dataframe transactions =
     map (\<lambda>t.
       let tx_type = getattr_type t ''EXPENSE''
       in \<lparr>r_id = t_id t,
           r_type = tx_type,
           r_amount = t_amount t,
           r_category = category_value (t_category t),
           r_description = (case t_description t of None \<Rightarrow> [] | Some d \<Rightarrow> d),
           r_date = t_date t,
           r_userId = t_userId t\<rparr>) transactions"

text \<open>\<open>df[df['type'] == v]\<close> and \<open>df[df['category'] == v]\<close>.\<close>

definition df_where_type :: "df_row list \<Rightarrow> string \<Rightarrow> df_row list" where
  "df_where_type df v = filter (\<lambda>r. r_type r = Some v) df"

definition df_where_category :: "df_row list \<Rightarrow> string \<Rightarrow> df_row list" where
  "df_where_category df v = filter (\<lambda>r. r_category r = v) df"

definition amount_sum :: "df_row list \<Rightarrow> real" where
  "amount_sum df = sum_list (map r_amount df)"

subsection \<open>\<open>_analyze_spending_patterns\<close>\<close>

text \<open>
  \<open>list.sort(key, reverse=True)\<close> is stable: entries with equal keys keep their order.
  It is \<open>sort_key\<close> on the negated key.
\<close>

definition analyze_spending_patterns :: "df_row list \<Rightarrow> SpendingPattern list" where
  "analyze_spending_patterns df =
     (let total = amount_sum df;
          patterns = map (\<lambda>category.
            let cat_data = df_where_category df category;
                cat_total = amount_sum cat_data;
                cat_count = length cat_data;
                cat_avg = cat_total / real cat_count
            in \<lparr>sp_category = category,
                sp_totalAmount = cat_total,
                sp_transactionCount = cat_count,
                sp_averageAmount = cat_avg,
                sp_percentage = (if total > 0 then (cat_total / total) * 100 else 0)\<rparr>)
            (unique (map r_category df))
      in sort_key (\<lambda>x. - sp_totalAmount x) patterns)"

subsection \<open>\<open>_generate_budget_recommendations\<close>\<close>

definition budget_guidelines :: "(string \<times> real) list" where
  "budget_guidelines =
     [(''food'', 0.15), (''utilities'', 0.10), (''transport'', 0.10), (''healthcare'', 0.05),
      (''entertainment'', 0.05), (''shopping'', 0.10), (''other'', 0.05)]"

text \<open>\<open>d.get(k, dflt)\<close> on a dictionary given as its list of items.\<close>

definition dict_get :: "('k \<times> 'v) list \<Rightarrow> 'k \<Rightarrow> 'v \<Rightarrow> 'v" where
  "dict_get d k dflt = (case map_of d k of None \<Rightarrow> dflt | Some v \<Rightarrow> v)"

text \<open>
  The quotient \<open>current_spending / recommended\<close> of the "high" reason is a NumPy
  division: on a zero divisor (with a positive dividend, as this branch has) it is
  \<open>inf\<close>, which formats as \<open>inf\<close>.
\<close>

definition budget_recommendation_of :: "real \<Rightarrow> SpendingPattern \<Rightarrow> BudgetRecommendation" where
  "budget_recommendation_of total_spending pattern =
     (let category = sp_category pattern;
          current_spending = sp_totalAmount pattern;
          guideline_pct = dict_get budget_guidelines category 0.05;
          recommended = total_spending * guideline_pct;
          (priority, reason) =
            (if current_spending > recommended * 1.5 then
               (''high'',
                ''Spending is '' @
                (if recommended = 0 then ''inf''
                 else fmt_f 0 ((current_spending / recommended - 1) * 100)) @
                ''% over recommended budget'')
             else if current_spending > recommended * 1.2 then
               (''medium'', ''Spending is slightly above recommended budget'')
             else
               (''low'', ''Spending is within recommended range''))
      in \<lparr>br_category = category,
          br_recommendedAmount = recommended,
          br_currentSpending = current_spending,
          br_reason = reason,
          br_priority = priority\<rparr>)"

definition generate_budget_recommendations ::
  "df_row list \<Rightarrow> SpendingPattern list \<Rightarrow> BudgetRecommendation list" where
  "generate_budget_recommendations df patterns =
     (let total_spending = amount_sum df
      in map (budget_recommendation_of total_spending) patterns)"

subsection \<open>\<open>_detect_anomalies\<close>\<close>

text \<open>
  The loop \<open>for idx, (pred, score) in enumerate(zip(predictions, scores))\<close>, with the
  list \<open>anomalies\<close> as accumulator. \<open>transactions[idx]\<close> raises \<open>IndexError\<close> past the
  end of the list. \<open>transaction.id or f"tx_{idx}"\<close> takes the synthetic id when the id is
  \<open>None\<close> or the empty string.
\<close>

fun anomaly_loop ::
  "df_row list \<Rightarrow> Transaction list \<Rightarrow> nat \<Rightarrow> (int \<times> real) list \<Rightarrow> AnomalyDetection list
   \<Rightarrow> error + AnomalyDetection list" where
  "anomaly_loop df transactions idx [] anomalies' = Inr anomalies'"
| "anomaly_loop df transactions idx ((pred, score) # rest) anomalies' =
     (if pred = - 1 then
        (if idx < length transactions then
           (let transaction = transactions ! idx;
                cat_avg = mean (map r_amount
                            (df_where_category df (category_value (t_category transaction))));
                reason = ''Amount is $'' @
                         fmt_f_nan 2 (map_option (\<lambda>avg. \<bar>t_amount transaction - avg\<bar>) cat_avg) @
                         '' away from average '' @ category_value (t_category transaction) @
                         '' spending''
            in anomaly_loop df transactions (Suc idx) rest
                 (anomalies' @
                  [\<lparr>an_transactionId =
                       (case t_id transaction of
                          None \<Rightarrow> ''tx_'' @ str_nat idx
                        | Some s \<Rightarrow> if s = [] then ''tx_'' @ str_nat idx else s),
                     an_amount = t_amount transaction,
                     an_category = category_value (t_category transaction),
                     an_date = t_date transaction,
                     an_anomalyScore = \<bar>score\<bar>,
                     an_reason = reason\<rparr>]))
         else Inl IndexError)
      else anomaly_loop df transactions (Suc idx) rest anomalies')"

definition detect_anomalies ::
  "IsolationForest \<Rightarrow> df_row list \<Rightarrow> Transaction list \<Rightarrow> error + AnomalyDetection list" where
  "detect_anomalies detector df transactions =
     (if length df < 10 then Inr []
      else
        let features = map r_amount df;
            predictions = fit_predict detector features;
            scores = score_samples detector features
        in anomaly_loop df transactions 0 (zip predictions scores) [])"

subsection \<open>\<open>_identify_savings_opportunities\<close>\<close>

text \<open>The two f-strings of the function.\<close>

definition reduce_text :: "string \<Rightarrow> real \<Rightarrow> string" where
  "reduce_text category excess =
     ''Reduce '' @ category @ '' spending by $'' @ fmt_f 2 excess @
     ''/month to meet budget goals''"

definition consolidate_text :: "string \<Rightarrow> real \<Rightarrow> string" where
  "consolidate_text category total_saved =
     ''Consolidate small '' @ category @ '' purchases to save up to $'' @
     fmt_f 2 total_saved @ ''/month''"

text \<open>The two \<open>for\<close> loops, with the list \<open>opportunities\<close> as accumulator.\<close>

fun reduce_loop :: "BudgetRecommendation list \<Rightarrow> string list \<Rightarrow> string list" where
  "reduce_loop [] opportunities = opportunities"
| "reduce_loop (r # rest) opportunities =
     (let excess = br_currentSpending r - br_recommendedAmount r
      in if excess > 0 then
           reduce_loop rest (opportunities @ [reduce_text (br_category r) excess])
         else reduce_loop rest opportunities)"

fun consolidate_loop :: "SpendingPattern list \<Rightarrow> string list \<Rightarrow> string list" where
  "consolidate_loop [] opportunities = opportunities"
| "consolidate_loop (pattern # rest) opportunities =
     (if sp_transactionCount pattern > 20 \<and> sp_averageAmount pattern < 10 then
        (let total_saved = real (sp_transactionCount pattern) * sp_averageAmount pattern * 0.3
         in consolidate_loop rest
              (opportunities @ [consolidate_text (sp_category pattern) total_saved]))
      else consolidate_loop rest opportunities)"

definition identify_savings_opportunities ::
  "SpendingPattern list \<Rightarrow> BudgetRecommendation list \<Rightarrow> string list" where
  "identify_savings_opportunities patterns recommendations =
     (let high_priority = filter (\<lambda>r. br_priority r = ''high'') recommendations;
          opportunities = reduce_loop (take 3 high_priority) [];
          opportunities = consolidate_loop patterns opportunities;
          opportunities =
            (if opportunities = [] then
               opportunities @ [''Your spending is well-balanced. Keep up the good work!'']
             else opportunities)
      in take 5 opportunities)"

subsection \<open>\<open>_analyze_income_vs_expense\<close>\<close>

text \<open>
  A frame built from at least one transaction has all seven columns; the frame built from
  no transaction has none. So \<open>'type' in df.columns\<close> holds exactly for the frames with a
  row. Where it fails, \<open>total_income\<close> is \<open>0.0\<close> and the alternative for \<open>total_expense\<close>,
  \<open>df['amount'].sum()\<close>, raises \<open>KeyError\<close>: the column \<open>amount\<close> is missing too.
\<close>

definition type_in_columns :: "df_row list \<Rightarrow> bool" where
  "type_in_columns df = (df \<noteq> [])"

definition analyze_income_vs_expense :: "df_row list \<Rightarrow> error + IncomeVsExpense" where
  "analyze_income_vs_expense df =
     (if type_in_columns df then
        (let total_income = amount_sum (df_where_type df ''INCOME'');
             total_expense = amount_sum (df_where_type df ''EXPENSE'');
             net_balance = total_income - total_expense;
             savings_rate = (if total_income > 0 then net_balance / total_income * 100 else 0);
             status = (if savings_rate \<ge> 20 then ''healthy''
                       else if savings_rate \<ge> 10 then ''concerning''
                       else ''critical'')
         in Inr \<lparr>ie_totalIncome = total_income,
                 ie_totalExpense = total_expense,
                 ie_netBalance = net_balance,
                 ie_savingsRate = savings_rate,
                 ie_status = status\<rparr>)
      else Inl KeyError)"

subsection \<open>\<open>_assess_category_health\<close>\<close>

definition recommended_pct :: "(string \<times> nat) list" where
  "recommended_pct =
     [(''food'', 15), (''utilities'', 10), (''transport'', 10), (''healthcare'', 5),
      (''entertainment'', 5), (''shopping'', 10), (''other'', 5)]"

definition status_order :: "(string \<times> nat) list" where
  "status_order = [(''bad'', 0), (''warning'', 1), (''good'', 2)]"

definition category_health_of :: "SpendingPattern \<Rightarrow> CategoryHealth" where
  "category_health_of pattern =
     (let category = sp_category pattern;
          current_pct = sp_percentage pattern;
          recommended = dict_get recommended_pct category 5;
          (status, reason, recommendation) =
            (if current_pct \<le> real recommended then
               (''good'',
                ''Spending is within healthy limits ('' @ fmt_f 1 current_pct @ ''% of total)'',
                ''Great job managing your '' @ category @ '' expenses!'')
             else if current_pct \<le> real recommended * 1.5 then
               (''warning'',
                ''Spending is '' @ fmt_f 0 ((current_pct / real recommended - 1) * 100) @
                ''% over recommended'',
                ''Try to reduce '' @ category @ '' spending by $'' @
                fmt_f 2 (sp_totalAmount pattern * 0.2))
             else
               (''bad'',
                ''Spending is significantly over recommended ('' @ fmt_f 1 current_pct @
                ''% vs '' @ str_nat recommended @ ''%)'',
                ''Priority: Cut '' @ category @ '' expenses by $'' @
                fmt_f 2 (sp_totalAmount pattern * 0.3) @ '' or more''))
      in \<lparr>ch_category = category,
          ch_status = status,
          ch_reason = reason,
          ch_spending = sp_totalAmount pattern,
          ch_recommendation = recommendation\<rparr>)"

text \<open>
  The sort key \<open>status_order[x.status]\<close> is a dictionary subscript, which raises
  \<open>KeyError\<close> on a status outside the table. The keys of all entries are computed
  before the list is reordered. \<open>list.sort\<close> is stable, as \<open>sort_key\<close> is. The third
  argument (\<open>income_data\<close>) and the local \<open>total_expense\<close> are not used by the source.
\<close>

definition status_key :: "CategoryHealth \<Rightarrow> nat" where
  "status_key x = the (map_of status_order (ch_status x))"

definition assess_category_health ::
  "df_row list \<Rightarrow> SpendingPattern list \<Rightarrow> IncomeVsExpense \<Rightarrow> error + CategoryHealth list" where
  "assess_category_health df patterns income_data =
     (let category_health = map category_health_of patterns
      in if list_all (\<lambda>x. map_of status_order (ch_status x) \<noteq> None) category_health
         then Inr (sort_key status_key category_health)
         else Inl KeyError)"

subsection \<open>\<open>_empty_insights\<close>\<close>

definition empty_insights :: "string \<Rightarrow> InsightsResponse" where
  "empty_insights uid =
     \<lparr>userId = uid,
      incomeVsExpense =
        \<lparr>ie_totalIncome = 0, ie_totalExpense = 0, ie_netBalance = 0, ie_savingsRate = 0,
         ie_status = ''healthy''\<rparr>,
      spendingPatterns = [],
      categoryHealth = [],
      budgetRecommendations = [],
      anomalies = [],
      totalSpending = 0,
      averageDailySpending = 0,
      projectedMonthlySpending = 0,
      savingsOpportunities = [''Start tracking your expenses to get personalized insights!'']\<rparr>"

subsection \<open>\<open>analyze_transactions\<close>\<close>

text \<open>
  \<open>hasattr(t, 'userId')\<close> holds for every \<open>Transaction\<close> (a required field), so the list
  handed to the detector is the whole input, income transactions included. The flag
  \<open>include_income\<close> is not read by the source and is left out.
\<close>

definition hasattr_userId :: "Transaction \<Rightarrow> bool" where
  "hasattr_userId t = True"

definition analyze_transactions ::
  "IsolationForest \<Rightarrow> Transaction list \<Rightarrow> string \<Rightarrow> error + InsightsResponse" where
  "analyze_transactions detector transactions uid =
     (if transactions = [] then Inr (empty_insights uid)
      else
        let df = transactions_to_dataframe transactions
        in (case analyze_income_vs_expense df of
              Inl e \<Rightarrow> Inl e
            | Inr income_vs_expense \<Rightarrow>
               (let expense_df = df_where_type df ''EXPENSE'';
                    spending_patterns = analyze_spending_patterns expense_df
                in (case assess_category_health expense_df spending_patterns
                           income_vs_expense of
                      Inl e \<Rightarrow> Inl e
                    | Inr category_health \<Rightarrow>
                       (let budget_recommendations =
                              generate_budget_recommendations expense_df spending_patterns
                        in (case detect_anomalies detector expense_df
                                   (filter hasattr_userId transactions) of
                              Inl e \<Rightarrow> Inl e
                            | Inr anomalies' \<Rightarrow>
                               (let total_spending =
                                      (if expense_df \<noteq> [] then amount_sum expense_df
                                       else 0);
                                    date_range =
                                      timedelta_days
                                        (series_max (map r_date df) -
                                         series_min (map r_date df));
                                    avg_daily_spending =
                                      total_spending / real_of_int (max date_range 1);
                                    projected_monthly = avg_daily_spending * 30;
                                    savings_opportunities =
                                      identify_savings_opportunities spending_patterns
                                        budget_recommendations
                                in Inr \<lparr>userId = uid,
                                        incomeVsExpense = income_vs_expense,
                                        spendingPatterns = spending_patterns,
                                        categoryHealth = category_health,
                                        budgetRecommendations = budget_recommendations,
                                        anomalies = anomalies',
                                        totalSpending = total_spending,
                                        averageDailySpending = avg_daily_spending,
                                        projectedMonthlySpending = projected_monthly,
                                        savingsOpportunities =
                                          savings_opportunities\<rparr>)))))))"

section \<open>Auxiliary notions\<close>

text \<open>
  What the service relies on from scikit-learn: both calls return one value per sample.
\<close>

definition sklearn_contract :: "IsolationForest \<Rightarrow> bool" where
  "sklearn_contract detector =
     (\<forall>X. length (fit_predict detector X) = length X \<and>
          length (score_samples detector X) = length X)"

text \<open>The expense subset of the frame, \<open>expense_df\<close> in \<open>analyze_transactions\<close>.\<close>

definition expense_frame :: "Transaction list \<Rightarrow> df_row list" where
  "expense_frame transactions =
     df_where_type (transactions_to_dataframe transactions) ''EXPENSE''"

text \<open>The constraint of the schema on a transaction: \<open>amount: float = Field(..., gt=0)\<close>.\<close>

definition schema_valid :: "Transaction \<Rightarrow> bool" where
  "schema_valid t = (t_amount t > 0)"

text \<open>
  The guideline fractions as the specification lists them (section 4.5): food 0.15,
  utilities 0.10, transport 0.10, healthcare 0.05, entertainment 0.05, shopping 0.10,
  other 0.05.
\<close>

definition spec_guideline_fraction :: "string \<Rightarrow> real" where
  "spec_guideline_fraction c =
     (if c = ''food'' then 0.15 else if c = ''utilities'' then 0.10
      else if c = ''transport'' then 0.10 else if c = ''healthcare'' then 0.05
      else if c = ''entertainment'' then 0.05 else if c = ''shopping'' then 0.10
      else 0.05)"

text \<open>
  The two rules of the savings synthesizer as the specification words them (section 4.7):
  of the first three high-priority recommendations, those whose current spend exceeds the
  recommended amount give a reduction string each; every pattern with more than 20
  transactions of average amount below 10 gives a consolidation string.
\<close>

definition reduction_strings :: "BudgetRecommendation list \<Rightarrow> string list" where
  "reduction_strings recs =
     map (\<lambda>r. reduce_text (br_category r) (br_currentSpending r - br_recommendedAmount r))
       (filter (\<lambda>r. br_currentSpending r > br_recommendedAmount r)
          (take 3 (filter (\<lambda>r. br_priority r = ''high'') recs)))"

definition consolidation_strings :: "SpendingPattern list \<Rightarrow> string list" where
  "consolidation_strings patterns =
     map (\<lambda>p. consolidate_text (sp_category p)
                (real (sp_transactionCount p) * sp_averageAmount p * 0.3))
       (filter (\<lambda>p. sp_transactionCount p > 20 \<and> sp_averageAmount p < 10) patterns)"

definition fallback_text :: string where
  "fallback_text = ''Your spending is well-balanced. Keep up the good work!''"

section \<open>Sample inputs\<close>

text \<open>
  A stand-in for the fitted model: it labels as outliers the amounts above 500. It returns
  one label and one score per sample.
\<close>

definition threshold_detector :: IsolationForest where
  "threshold_detector =
     \<lparr>fit_predict = (\<lambda>X. map (\<lambda>x. if x > 500 then - 1 else 1) X),
      score_samples = (\<lambda>X. map (\<lambda>x. - (x / 1000)) X)\<rparr>"

text \<open>A transaction of user \<open>user123\<close>, dated a number of days after the epoch.\<close>

definition mk_tx ::
  "string \<Rightarrow> real \<Rightarrow> TransactionCategory \<Rightarrow> int \<Rightarrow> string option \<Rightarrow> Transaction" where
  "mk_tx i a c day ty =
     \<lparr>t_id = Some i, t_amount = a, t_category = c, t_description = None,
      t_date = day * 86400000000, t_userId = ''user123'', t_type = ty\<rparr>"

text \<open>One income and two expenses, over three days.\<close>

definition sample_transactions :: "Transaction list" where
  "sample_transactions =
     [mk_tx ''s1'' 3000 OTHER 0 (Some ''INCOME''),
      mk_tx ''s2'' 50 FOOD 1 (Some ''EXPENSE''),
      mk_tx ''s3'' 100 TRANSPORT 3 (Some ''EXPENSE'')]"

text \<open>
  The input of \<open>test_single_transaction\<close> (tests/test_insights.py): one transaction built
  without a \<open>type\<close>.
\<close>

definition single_transaction :: "Transaction list" where
  "single_transaction = [mk_tx ''1'' 50 FOOD 0 None]"

text \<open>
  One income transaction followed by ten expenses, the first of them far larger than the
  others.
\<close>

definition interleaved_transactions :: "Transaction list" where
  "interleaved_transactions =
     [mk_tx ''salary'' 5000 OTHER 0 (Some ''INCOME''),
      mk_tx ''e0'' 1000 SHOPPING 1 (Some ''EXPENSE''),
      mk_tx ''e1'' 10 FOOD 2 (Some ''EXPENSE''),
      mk_tx ''e2'' 12 FOOD 3 (Some ''EXPENSE''),
      mk_tx ''e3'' 11 FOOD 4 (Some ''EXPENSE''),
      mk_tx ''e4'' 9 FOOD 5 (Some ''EXPENSE''),
      mk_tx ''e5'' 10 FOOD 6 (Some ''EXPENSE''),
      mk_tx ''e6'' 13 FOOD 7 (Some ''EXPENSE''),
      mk_tx ''e7'' 8 FOOD 8 (Some ''EXPENSE''),
      mk_tx ''e8'' 10 FOOD 9 (Some ''EXPENSE''),
      mk_tx ''e9'' 11 FOOD 10 (Some ''EXPENSE'')]"

text \<open>Seven expenses of the same amount, one per category.\<close>

definition seven_categories :: "Transaction list" where
  "seven_categories =
     [mk_tx ''c1'' 100 FOOD 0 (Some ''EXPENSE''),
      mk_tx ''c2'' 100 UTILITIES 1 (Some ''EXPENSE''),
      mk_tx ''c3'' 100 TRANSPORT 2 (Some ''EXPENSE''),
      mk_tx ''c4'' 100 HEALTHCARE 3 (Some ''EXPENSE''),
      mk_tx ''c5'' 100 ENTERTAINMENT 4 (Some ''EXPENSE''),
      mk_tx ''c6'' 100 SHOPPING 5 (Some ''EXPENSE''),
      mk_tx ''c7'' 100 OTHER 6 (Some ''EXPENSE'')]"

text \<open>One large purchase and twenty-one small food purchases.\<close>

definition many_small_purchases :: "Transaction list" where
  "many_small_purchases =
     mk_tx ''big'' 500 SHOPPING 0 (Some ''EXPENSE'') #
     map (\<lambda>d. mk_tx ''snack'' 4 FOOD (int d) (Some ''EXPENSE'')) [1..<22]"

section \<open>Lemmas on the service\<close>

lemma amount_sum_Nil [simp]: "amount_sum [] = 0"
  by (simp add: amount_sum_def)

lemma ch_status_cases:
  "ch_status (category_health_of p) = ''good'' \<or>
   ch_status (category_health_of p) = ''warning'' \<or>
   ch_status (category_health_of p) = ''bad''"
  by (simp add: category_health_of_def Let_def)

lemma status_known: "map_of status_order (ch_status (category_health_of p)) \<noteq> None"
  using ch_status_cases [of p] by (auto simp: status_order_def)

lemma assess_category_health_Inr:
  "assess_category_health df patterns income_data =
     Inr (sort_key status_key (map category_health_of patterns))"
  by (simp add: assess_category_health_def Let_def list_all_iff status_known)

lemma anomaly_loop_Inr:
  "idx + length zs \<le> length transactions \<Longrightarrow>
   \<exists>r. anomaly_loop df transactions idx zs acc = Inr r"
proof (induction zs arbitrary: idx acc)
  case Nil
  then show ?case by simp
next
  case (Cons z zs)
  obtain pred score where z: "z = (pred, score)" by (cases z)
  from Cons.prems have lt: "idx < length transactions"
    and nxt: "Suc idx + length zs \<le> length transactions"
    by simp_all
  show ?case
    using Cons.IH [OF nxt] lt by (simp add: z Let_def)
qed

lemma length_expense_frame: "length (expense_frame transactions) \<le> length transactions"
  by (simp add: expense_frame_def df_where_type_def transactions_to_dataframe_def)

lemma detect_anomalies_Inr:
  assumes "sklearn_contract detector" "length df \<le> length transactions"
  shows "\<exists>r. detect_anomalies detector df transactions = Inr r"
proof (cases "length df < 10")
  case True
  then show ?thesis by (simp add: detect_anomalies_def)
next
  case False
  have "length (zip (fit_predict detector (map r_amount df))
                    (score_samples detector (map r_amount df)))
        \<le> length transactions"
    using assms by (simp add: sklearn_contract_def)
  then show ?thesis
    using False anomaly_loop_Inr [of 0 _ transactions df "[]"]
    by (simp add: detect_anomalies_def Let_def)
qed

lemma analyze_income_vs_expense_Inr:
  "df \<noteq> [] \<Longrightarrow> analyze_income_vs_expense df = Inr (projr (analyze_income_vs_expense df))"
  by (simp add: analyze_income_vs_expense_def type_in_columns_def Let_def)

text \<open>The response of a run on a non-empty input, once the detector has returned.\<close>

lemma analyze_transactions_unfold:
  assumes ne: "transactions \<noteq> []"
    and f: "detect_anomalies detector (expense_frame transactions) transactions = Inr found"
  shows "analyze_transactions detector transactions uid =
           Inr \<lparr>userId = uid,
                incomeVsExpense =
                  projr (analyze_income_vs_expense (transactions_to_dataframe transactions)),
                spendingPatterns = analyze_spending_patterns (expense_frame transactions),
                categoryHealth =
                  sort_key status_key
                    (map category_health_of
                       (analyze_spending_patterns (expense_frame transactions))),
                budgetRecommendations =
                  generate_budget_recommendations (expense_frame transactions)
                    (analyze_spending_patterns (expense_frame transactions)),
                anomalies = found,
                totalSpending = amount_sum (expense_frame transactions),
                averageDailySpending =
                  amount_sum (expense_frame transactions) /
                  real_of_int
                    (max (timedelta_days
                            (series_max (map t_date transactions) -
                             series_min (map t_date transactions))) 1),
                projectedMonthlySpending =
                  amount_sum (expense_frame transactions) /
                  real_of_int
                    (max (timedelta_days
                            (series_max (map t_date transactions) -
                             series_min (map t_date transactions))) 1) * 30,
                savingsOpportunities =
                  identify_savings_opportunities
                    (analyze_spending_patterns (expense_frame transactions))
                    (generate_budget_recommendations (expense_frame transactions)
                       (analyze_spending_patterns (expense_frame transactions)))\<rparr>"
proof -
  have dates: "map r_date (transactions_to_dataframe transactions) = map t_date transactions"
    by (simp add: transactions_to_dataframe_def Let_def comp_def)
  have tot: "(if expense_frame transactions \<noteq> [] then amount_sum (expense_frame transactions)
              else 0) = amount_sum (expense_frame transactions)"
    by simp
  have flt: "filter hasattr_userId transactions = transactions"
    by (simp add: hasattr_userId_def)
  define ie where "ie = projr (analyze_income_vs_expense (transactions_to_dataframe transactions))"
  have "transactions_to_dataframe transactions \<noteq> []"
    using ne by (simp add: transactions_to_dataframe_def)
  then have inc: "analyze_income_vs_expense (transactions_to_dataframe transactions) = Inr ie"
    unfolding ie_def by (rule analyze_income_vs_expense_Inr)
  show ?thesis
    using ne f tot
    by (simp add: analyze_transactions_def Let_def inc assess_category_health_Inr dates flt
        expense_frame_def [symmetric])
qed

lemma analyze_transactions_nonempty:
  assumes ne: "transactions \<noteq> []" and ok: "sklearn_contract detector"
  shows "\<exists>resp. analyze_transactions detector transactions uid = Inr resp \<and>
           spendingPatterns resp = analyze_spending_patterns (expense_frame transactions) \<and>
           categoryHealth resp =
             sort_key status_key (map category_health_of (spendingPatterns resp)) \<and>
           budgetRecommendations resp =
             generate_budget_recommendations (expense_frame transactions)
               (spendingPatterns resp) \<and>
           totalSpending resp = amount_sum (expense_frame transactions) \<and>
           averageDailySpending resp =
             totalSpending resp /
             real_of_int
               (max (timedelta_days
                       (series_max (map t_date transactions) -
                        series_min (map t_date transactions))) 1) \<and>
           projectedMonthlySpending resp = averageDailySpending resp * 30 \<and>
           savingsOpportunities resp =
             identify_savings_opportunities (spendingPatterns resp)
               (budgetRecommendations resp)"
proof -
  obtain found
    where "detect_anomalies detector (expense_frame transactions) transactions = Inr found"
    using detect_anomalies_Inr [OF ok length_expense_frame] by blast
  from analyze_transactions_unfold [OF ne this] show ?thesis by simp
qed

lemma sklearn_contract_threshold: "sklearn_contract threshold_detector"
  by (simp add: sklearn_contract_def threshold_detector_def)

lemma single_frame: "expense_frame single_transaction = []"
  by (simp add: expense_frame_def single_transaction_def mk_tx_def
      transactions_to_dataframe_def df_where_type_def getattr_type_def)

lemma series_max_Max: "xs \<noteq> [] \<Longrightarrow> series_max xs = Max (set xs)"
  by (cases xs) (simp_all add: Max.set_eq_fold [symmetric])

lemma series_min_Min: "xs \<noteq> [] \<Longrightarrow> series_min xs = Min (set xs)"
  by (cases xs) (simp_all add: Min.set_eq_fold [symmetric])

lemma amount_sum_expense_frame:
  "amount_sum (expense_frame transactions) =
     sum_list (map t_amount (filter (\<lambda>t. t_type t = Some ''EXPENSE'') transactions))"
  by (induction transactions)
     (simp_all add: amount_sum_def expense_frame_def df_where_type_def
        transactions_to_dataframe_def getattr_type_def)

lemma dict_get_budget_guidelines:
  "dict_get budget_guidelines c (1 / 20) = spec_guideline_fraction c"
  by (simp add: dict_get_def budget_guidelines_def spec_guideline_fraction_def)

lemma spec_guideline_fraction_pos: "0 < spec_guideline_fraction c"
  by (simp add: spec_guideline_fraction_def)

lemma amount_sum_expense_frame_nonneg:
  assumes "\<forall>t\<in>set transactions. schema_valid t"
  shows "0 \<le> amount_sum (expense_frame transactions)"
proof -
  have "\<forall>x\<in>set (map t_amount (filter (\<lambda>t. t_type t = Some ''EXPENSE'') transactions)). 0 \<le> x"
    using assms by (auto simp: schema_valid_def intro: less_imp_le)
  then show ?thesis
    unfolding amount_sum_expense_frame by (intro sum_list_nonneg) blast
qed

lemma budget_recommendation_of_fields:
  "br_recommendedAmount (budget_recommendation_of tot p) =
     tot * spec_guideline_fraction (sp_category p)"
  "br_currentSpending (budget_recommendation_of tot p) = sp_totalAmount p"
  "br_category (budget_recommendation_of tot p) = sp_category p"
  by (simp_all add: budget_recommendation_of_def Let_def dict_get_budget_guidelines split: prod.splits)

lemma budget_recommendation_of_priority:
  "br_priority (budget_recommendation_of tot p) =
     (if sp_totalAmount p > tot * spec_guideline_fraction (sp_category p) * 1.5 then ''high''
      else if sp_totalAmount p > tot * spec_guideline_fraction (sp_category p) * 1.2 then ''medium''
      else ''low'')"
  by (simp add: budget_recommendation_of_def Let_def dict_get_budget_guidelines split: prod.splits)

lemma sample_valid: "\<forall>t\<in>set sample_transactions. schema_valid t"
  by (simp add: sample_transactions_def mk_tx_def schema_valid_def)

lemma sample_valid_all: "list_all schema_valid sample_transactions"
  using sample_valid by (simp add: list_all_iff)

lemma sample_frame: "expense_frame sample_transactions =
   [\<lparr>r_id = Some ''s2'', r_type = Some ''EXPENSE'', r_amount = 50, r_category = ''food'',
      r_description = [], r_date = 86400000000, r_userId = ''user123''\<rparr>,
    \<lparr>r_id = Some ''s3'', r_type = Some ''EXPENSE'', r_amount = 100, r_category = ''transport'',
      r_description = [], r_date = 259200000000, r_userId = ''user123''\<rparr>]"
  by (simp add: expense_frame_def sample_transactions_def mk_tx_def transactions_to_dataframe_def
      df_where_type_def getattr_type_def)

lemma sample_patterns: "analyze_spending_patterns (expense_frame sample_transactions) =
   [\<lparr>sp_category = ''transport'', sp_totalAmount = 100, sp_transactionCount = 1,
      sp_averageAmount = 100, sp_percentage = 200 / 3\<rparr>,
    \<lparr>sp_category = ''food'', sp_totalAmount = 50, sp_transactionCount = 1,
      sp_averageAmount = 50, sp_percentage = 100 / 3\<rparr>]"
  by (simp add: sample_frame analyze_spending_patterns_def amount_sum_def df_where_category_def Let_def)

lemma sorted_three_tiers:
  fixes f :: "'a \<Rightarrow> nat"
  assumes "sorted (map f ys)" and "\<forall>y\<in>set ys. f y < 3"
  shows "ys = filter (\<lambda>y. f y = 0) ys @ filter (\<lambda>y. f y = Suc 0) ys @ filter (\<lambda>y. f y = 2) ys"
  using assms
proof (induction ys)
  case Nil
  then show ?case by simp
next
  case (Cons y ys)
  then have IH: "ys = filter (\<lambda>y. f y = 0) ys @ filter (\<lambda>y. f y = Suc 0) ys @ filter (\<lambda>y. f y = 2) ys"
    and le: "\<forall>z\<in>set ys. f y \<le> f z" and lt: "f y < 3" and lts: "\<forall>z\<in>set ys. f z < 3"
    by simp_all
  from lt consider "f y = 0" | "f y = Suc 0" | "f y = 2" by linarith
  then show ?case
  proof cases
    case 1
    then show ?thesis using IH by simp
  next
    case 2
    then have "filter (\<lambda>y. f y = 0) ys = []"
      using le by (auto simp: filter_empty_conv)
    then show ?thesis using 2 IH by simp
  next
    case 3
    then have "filter (\<lambda>y. f y = 0) ys = []" "filter (\<lambda>y. f y = Suc 0) ys = []"
      using le by (auto simp: filter_empty_conv)
    moreover have "filter (\<lambda>y. f y = 2) ys = ys"
      using le lts 3 by (auto simp: filter_id_conv) (metis le_antisym less_Suc_eq_le numeral_3_eq_3 numeral_2_eq_2)
    ultimately show ?thesis using 3 by simp
  qed
qed

lemma sort_key_three_tiers:
  fixes f :: "'a \<Rightarrow> nat"
  assumes "\<forall>y\<in>set xs. f y < 3"
  shows "sort_key f xs =
           filter (\<lambda>y. f y = 0) xs @ filter (\<lambda>y. f y = Suc 0) xs @ filter (\<lambda>y. f y = 2) xs"
proof -
  have "sort_key f xs = filter (\<lambda>y. f y = 0) (sort_key f xs) @ filter (\<lambda>y. f y = Suc 0) (sort_key f xs)
          @ filter (\<lambda>y. f y = 2) (sort_key f xs)"
    using assms by (intro sorted_three_tiers) simp_all
  then show ?thesis by (simp only: sort_key_stable)
qed

lemma status_key_eq:
  "status_key (category_health_of p) = 0 \<longleftrightarrow> ch_status (category_health_of p) = ''bad''"
  "status_key (category_health_of p) = Suc 0 \<longleftrightarrow> ch_status (category_health_of p) = ''warning''"
  "status_key (category_health_of p) = 2 \<longleftrightarrow> ch_status (category_health_of p) = ''good''"
  using ch_status_cases [of p] by (auto simp: status_key_def status_order_def)

lemma status_key_lt: "status_key (category_health_of p) < 3"
  using ch_status_cases [of p] by (auto simp: status_key_def status_order_def)

lemma filter_status_key:
  "filter (\<lambda>h. status_key h = 0) (map category_health_of ps) =
     filter (\<lambda>h. ch_status h = ''bad'') (map category_health_of ps)"
  "filter (\<lambda>h. status_key h = Suc 0) (map category_health_of ps) =
     filter (\<lambda>h. ch_status h = ''warning'') (map category_health_of ps)"
  "filter (\<lambda>h. status_key h = 2) (map category_health_of ps) =
     filter (\<lambda>h. ch_status h = ''good'') (map category_health_of ps)"
  by (auto intro!: filter_cong simp: status_key_eq)

lemma seven_patterns:
  "map sp_category (analyze_spending_patterns (expense_frame seven_categories)) =
     [''food'', ''utilities'', ''transport'', ''healthcare'', ''entertainment'',
      ''shopping'', ''other'']"
  by code_simp

lemma seven_hs:
  "map (\<lambda>h. (ch_category h, ch_status h))
        (map category_health_of (analyze_spending_patterns (expense_frame seven_categories))) =
     [(''food'', ''good''), (''utilities'', ''warning''), (''transport'', ''warning''),
       (''healthcare'', ''bad''), (''entertainment'', ''bad''), (''shopping'', ''warning''),
       (''other'', ''bad'')]"
  by code_simp

lemma flt_status:
   "map (\<lambda>h. (ch_category h, ch_status h)) (filter (\<lambda>h. ch_status h = s) xs) =
             filter (\<lambda>q. snd q = s) (map (\<lambda>h. (ch_category h, ch_status h)) xs)"
  by (induction xs) auto

lemma seven_health:
  "map (\<lambda>h. (ch_category h, ch_status h))
     (filter (\<lambda>h. ch_status h = ''bad'')
        (map category_health_of (analyze_spending_patterns (expense_frame seven_categories))) @
      filter (\<lambda>h. ch_status h = ''warning'')
        (map category_health_of (analyze_spending_patterns (expense_frame seven_categories))) @
      filter (\<lambda>h. ch_status h = ''good'')
        (map category_health_of (analyze_spending_patterns (expense_frame seven_categories)))) =
     [(''healthcare'', ''bad''), (''entertainment'', ''bad''), (''other'', ''bad''),
      (''utilities'', ''warning''), (''transport'', ''warning''), (''shopping'', ''warning''),
      (''food'', ''good'')]"
  unfolding map_append flt_status seven_hs by simp

lemma reduce_loop_eq:
  "reduce_loop rs acc =
     acc @ map (\<lambda>r. reduce_text (br_category r) (br_currentSpending r - br_recommendedAmount r))
             (filter (\<lambda>r. br_currentSpending r > br_recommendedAmount r) rs)"
  by (induction rs arbitrary: acc) (simp_all add: Let_def)

lemma consolidate_loop_eq:
  "consolidate_loop ps acc = acc @ consolidation_strings ps"
  by (induction ps arbitrary: acc) (simp_all add: Let_def consolidation_strings_def)

lemma identify_savings_opportunities_eq:
  "identify_savings_opportunities patterns recs =
     (if reduction_strings recs @ consolidation_strings patterns = [] then [fallback_text]
      else take 5 (reduction_strings recs @ consolidation_strings patterns))"
  by (simp add: identify_savings_opportunities_def Let_def reduce_loop_eq consolidate_loop_eq
      reduction_strings_def fallback_text_def)

lemma generated_not_fallback:
  "fallback_text \<notin> set (reduction_strings recs @ consolidation_strings patterns)"
  by (auto simp: reduction_strings_def consolidation_strings_def fallback_text_def
      reduce_text_def consolidate_text_def)

lemma length_reduction_strings: "length (reduction_strings recs) \<le> 3"
proof -
  have "length (reduction_strings recs) \<le> length (take 3 (filter (\<lambda>r. br_priority r = ''high'') recs))"
    unfolding reduction_strings_def length_map by (rule length_filter_le)
  then show ?thesis by simp
qed

lemmas fmt_eval = fmt_f_def round_half_even_def zfill_def str_nat.simps digit_char_def Let_def

lemma many_small_total: "amount_sum (expense_frame many_small_purchases) = 584"
  by code_simp

lemma many_small_patterns:
  "analyze_spending_patterns (expense_frame many_small_purchases) =
   [\<lparr>sp_category = ''shopping'', sp_totalAmount = 500, sp_transactionCount = 1,
      sp_averageAmount = 500, sp_percentage = 500 / 584 * 100\<rparr>,
    \<lparr>sp_category = ''food'', sp_totalAmount = 84, sp_transactionCount = 21,
      sp_averageAmount = 4, sp_percentage = 84 / 584 * 100\<rparr>]"
  by code_simp

lemma many_small_reductions:
  "reduction_strings
     (generate_budget_recommendations (expense_frame many_small_purchases)
        (analyze_spending_patterns (expense_frame many_small_purchases))) =
     [''Reduce shopping spending by $441.60/month to meet budget goals'']"
proof -
  have "reduction_strings
     (generate_budget_recommendations (expense_frame many_small_purchases)
        (analyze_spending_patterns (expense_frame many_small_purchases))) =
     [reduce_text ''shopping'' 441.6]"
    by (simp add: generate_budget_recommendations_def many_small_total many_small_patterns
        reduction_strings_def budget_recommendation_of_priority budget_recommendation_of_fields
        spec_guideline_fraction_def)
  also have "reduce_text ''shopping'' 441.6 =
     ''Reduce shopping spending by $441.60/month to meet budget goals''"
    by (simp add: reduce_text_def fmt_eval)
  finally show ?thesis .
qed

lemma many_small_consolidations:
  "consolidation_strings (analyze_spending_patterns (expense_frame many_small_purchases)) =
     [''Consolidate small food purchases to save up to $25.20/month'']"
proof -
  have "consolidation_strings (analyze_spending_patterns (expense_frame many_small_purchases)) =
     [consolidate_text ''food'' 25.2]"
    by (simp add: many_small_patterns consolidation_strings_def)
  also have "consolidate_text ''food'' 25.2 =
     ''Consolidate small food purchases to save up to $25.20/month''"
    by (simp add: consolidate_text_def fmt_eval)
  finally show ?thesis .
qed

lemma high_priority_excess:
  assumes "0 \<le> tot" and "br_priority (budget_recommendation_of tot p) = ''high''"
  shows "br_recommendedAmount (budget_recommendation_of tot p) <
         br_currentSpending (budget_recommendation_of tot p)"
proof -
  have nn: "0 \<le> tot * spec_guideline_fraction (sp_category p)"
    using assms(1) spec_guideline_fraction_pos [of "sp_category p"] by simp
  from assms(2) have "sp_totalAmount p > tot * spec_guideline_fraction (sp_category p) * 1.5"
    by (simp add: budget_recommendation_of_priority split: if_splits)
  with nn show ?thesis by (simp add: budget_recommendation_of_fields)
qed


lemma sample_recommendations:
  "generate_budget_recommendations (expense_frame sample_transactions)
     (analyze_spending_patterns (expense_frame sample_transactions)) =
   [budget_recommendation_of 150
      \<lparr>sp_category = ''transport'', sp_totalAmount = 100, sp_transactionCount = 1,
         sp_averageAmount = 100, sp_percentage = 200 / 3\<rparr>,
    budget_recommendation_of 150
      \<lparr>sp_category = ''food'', sp_totalAmount = 50, sp_transactionCount = 1,
         sp_averageAmount = 50, sp_percentage = 100 / 3\<rparr>]"
  by (simp add: sample_patterns generate_budget_recommendations_def)
     (simp add: sample_frame amount_sum_def)

lemma sample_high_priority:
  "take 3 (filter (\<lambda>r. br_priority r = ''high'')
     (generate_budget_recommendations (expense_frame sample_transactions)
        (analyze_spending_patterns (expense_frame sample_transactions)))) =
   generate_budget_recommendations (expense_frame sample_transactions)
     (analyze_spending_patterns (expense_frame sample_transactions))"
  by (simp add: sample_recommendations budget_recommendation_of_priority
      spec_guideline_fraction_def)

lemma sample_reduce_texts:
  "map (\<lambda>r. reduce_text (br_category r) (br_currentSpending r - br_recommendedAmount r))
     (generate_budget_recommendations (expense_frame sample_transactions)
        (analyze_spending_patterns (expense_frame sample_transactions))) =
   [''Reduce transport spending by $85.00/month to meet budget goals'',
    ''Reduce food spending by $27.50/month to meet budget goals'']"
proof -
  have "map (\<lambda>r. reduce_text (br_category r) (br_currentSpending r - br_recommendedAmount r))
     (generate_budget_recommendations (expense_frame sample_transactions)
        (analyze_spending_patterns (expense_frame sample_transactions))) =
     [reduce_text ''transport'' 85, reduce_text ''food'' 27.5]"
    by (simp add: sample_recommendations budget_recommendation_of_fields
        spec_guideline_fraction_def)
  moreover have "reduce_text ''transport'' 85 =
      ''Reduce transport spending by $85.00/month to meet budget goals''"
    by (simp add: reduce_text_def fmt_eval)
  moreover have "reduce_text ''food'' 27.5 =
      ''Reduce food spending by $27.50/month to meet budget goals''"
    by (simp add: reduce_text_def fmt_eval)
  ultimately show ?thesis by (simp only:)
qed

lemma interleaved_labels:
  "fit_predict threshold_detector (map r_amount (expense_frame interleaved_transactions)) =
     [- 1, 1, 1, 1, 1, 1, 1, 1, 1, 1]"
  by code_simp

lemma interleaved_flagged_row:
  "expense_frame interleaved_transactions ! 0 =
     \<lparr>r_id = Some ''e0'', r_type = Some ''EXPENSE'', r_amount = 1000, r_category = ''shopping'',
      r_description = [], r_date = 86400000000, r_userId = ''user123''\<rparr>"
  by code_simp

lemma interleaved_anomalies:
  "detect_anomalies threshold_detector (expense_frame interleaved_transactions)
     interleaved_transactions =
   Inr [\<lparr>an_transactionId = ''salary'', an_amount = 5000, an_category = ''other'',
          an_date = 0, an_anomalyScore = 1,
          an_reason = ''Amount is $nan away from average other spending''\<rparr>]"
  by code_simp

section \<open>The claims\<close>

subsection \<open>C6: the empty input\<close>

text \<open>
  Claim C6. On the empty transaction list the engine raises no error and returns the
  canonical empty response: income, expense, net balance and savings rate zero with status
  "healthy"; no spending pattern, category health entry, budget recommendation or
  anomaly; total, average daily and projected monthly spending zero; and a list of
  savings opportunities made of exactly one fallback string.
\<close>

theorem C6_empty_input:
  "analyze_transactions detector [] uid =
     Inr \<lparr>userId = uid,
          incomeVsExpense =
            \<lparr>ie_totalIncome = 0, ie_totalExpense = 0, ie_netBalance = 0, ie_savingsRate = 0,
             ie_status = ''healthy''\<rparr>,
          spendingPatterns = [],
          categoryHealth = [],
          budgetRecommendations = [],
          anomalies = [],
          totalSpending = 0,
          averageDailySpending = 0,
          projectedMonthlySpending = 0,
          savingsOpportunities =
            [''Start tracking your expenses to get personalized insights!'']\<rparr>"
  by (simp add: analyze_transactions_def empty_insights_def)

subsection \<open>C3: fewer than ten expenses\<close>

text \<open>
  Claim C3. Whenever the expense subset of the input has fewer than 10 rows, the engine
  returns a response (no error) whose list of anomalies is empty, whatever the amounts and
  whatever the outlier model would answer.
\<close>

theorem C3_few_expenses_no_anomalies:
  assumes "length (expense_frame transactions) < 10"
  shows "\<exists>resp. analyze_transactions detector transactions uid = Inr resp \<and>
           anomalies resp = []"
proof (cases "transactions = []")
  case True
  then show ?thesis by (simp add: analyze_transactions_def empty_insights_def)
next
  case False
  have "detect_anomalies detector (expense_frame transactions) transactions = Inr []"
    using assms by (simp add: detect_anomalies_def)
  from analyze_transactions_unfold [OF False this] show ?thesis by simp
qed

theorem C3_witness:
  "length (expense_frame sample_transactions) < 10 \<and>
   (\<exists>resp. analyze_transactions threshold_detector sample_transactions ''user123'' = Inr resp \<and>
           anomalies resp = [])"
proof -
  have h: "length (expense_frame sample_transactions) < 10"
    by (simp add: expense_frame_def sample_transactions_def mk_tx_def
        transactions_to_dataframe_def df_where_type_def getattr_type_def)
  from C3_few_expenses_no_anomalies [OF h] h show ?thesis by blast
qed

subsection \<open>C1: a transaction without a type\<close>

text \<open>
  Claim C1 says that a transaction whose \<open>type\<close> is absent is treated as an EXPENSE. The
  code does not do so: on the input of \<open>test_single_transaction\<close>, a single food
  transaction of amount 50 built without a type, the transaction is left out of the
  expense subset, the total spending and the total expense are 0 and there is no spending
  pattern (the test expects a total of 50 and one pattern).
\<close>

theorem C1_absent_type_left_out:
  "\<exists>resp. analyze_transactions threshold_detector single_transaction ''user123'' = Inr resp \<and>
     t_type (hd single_transaction) = None \<and>
     totalSpending resp = 0 \<and> spendingPatterns resp = [] \<and>
     ie_totalExpense (incomeVsExpense resp) = 0"
proof -
  have ne: "single_transaction \<noteq> []" by (simp add: single_transaction_def)
  have d: "detect_anomalies threshold_detector (expense_frame single_transaction)
             single_transaction = Inr []"
    by (simp add: single_frame detect_anomalies_def)
  show ?thesis
    unfolding analyze_transactions_unfold [OF ne d]
    apply (simp add: single_frame analyze_spending_patterns_def)
    apply (simp add: single_transaction_def mk_tx_def analyze_income_vs_expense_def
        transactions_to_dataframe_def df_where_type_def getattr_type_def type_in_columns_def)
    done
qed

subsection \<open>C9: average daily and projected monthly spending\<close>

text \<open>
  Claim C9. On a non-empty input the engine returns a response in which the total
  spending is the sum of the amounts of the EXPENSE transactions, the average daily
  spending is that total divided by \<open>max d 1\<close>, where \<open>d\<close> is the number of whole days
  between the earliest and the latest date over all transactions of the input (income
  and expense alike), and the projected monthly spending is 30 times the average daily
  spending.
\<close>

theorem C9_average_daily_spending:
  assumes "transactions \<noteq> []" and "sklearn_contract detector"
  shows "\<exists>resp. analyze_transactions detector transactions uid = Inr resp \<and>
           totalSpending resp =
             sum_list (map t_amount (filter (\<lambda>t. t_type t = Some ''EXPENSE'') transactions)) \<and>
           averageDailySpending resp =
             totalSpending resp /
             real_of_int
               (max ((Max (t_date ` set transactions) - Min (t_date ` set transactions))
                     div 86400000000) 1) \<and>
           projectedMonthlySpending resp = averageDailySpending resp * 30"
proof -
  have mx: "series_max (map t_date transactions) = Max (t_date ` set transactions)"
    using assms(1) by (simp add: series_max_Max)
  have mn: "series_min (map t_date transactions) = Min (t_date ` set transactions)"
    using assms(1) by (simp add: series_min_Min)
  from analyze_transactions_nonempty [OF assms, of uid] show ?thesis
    by (auto simp: mx mn timedelta_days_def amount_sum_expense_frame)
qed

theorem C9_witness:
  "sample_transactions \<noteq> [] \<and> sklearn_contract threshold_detector \<and>
   (\<exists>resp. analyze_transactions threshold_detector sample_transactions ''user123'' = Inr resp \<and>
      totalSpending resp = 150 \<and> averageDailySpending resp = 50 \<and>
      projectedMonthlySpending resp = 1500)"
proof -
  have ne: "sample_transactions \<noteq> []" by (simp add: sample_transactions_def)
  have tot: "sum_list (map t_amount (filter (\<lambda>t. t_type t = Some ''EXPENSE'') sample_transactions)) = 150"
    by (simp add: sample_transactions_def mk_tx_def)
  have d: "(Max (t_date ` set sample_transactions) - Min (t_date ` set sample_transactions)) div 86400000000 = 3"
    by (simp add: sample_transactions_def mk_tx_def)
  from C9_average_daily_spending [OF ne sklearn_contract_threshold, of "''user123''"]
  show ?thesis
    using ne sklearn_contract_threshold by (auto simp: tot d)
qed

subsection \<open>C4: priority of a budget recommendation\<close>

text \<open>
  Claim C4. For every budget recommendation of the response (amounts positive, as the
  schema requires): the priority is "high" exactly when the current spending exceeds 1.5
  times the recommended amount, "medium" exactly when it exceeds 1.2 times but not 1.5
  times the recommended amount, and "low" otherwise; in particular it is never "high"
  when the current spending is at most 1.2 times the recommended amount; and the
  recommended amount is the total expense times the guideline fraction of the category.
\<close>

theorem C4_budget_priority:
  assumes "sklearn_contract detector" and "\<forall>t\<in>set transactions. schema_valid t"
  shows "\<exists>resp. analyze_transactions detector transactions uid = Inr resp \<and>
           (\<forall>r\<in>set (budgetRecommendations resp).
              (br_priority r = ''high'' \<longleftrightarrow>
                 br_currentSpending r > 1.5 * br_recommendedAmount r) \<and>
              (br_priority r = ''medium'' \<longleftrightarrow>
                 br_currentSpending r > 1.2 * br_recommendedAmount r \<and>
                 \<not> br_currentSpending r > 1.5 * br_recommendedAmount r) \<and>
              (br_priority r = ''low'' \<longleftrightarrow>
                 \<not> br_currentSpending r > 1.2 * br_recommendedAmount r) \<and>
              (br_currentSpending r \<le> 1.2 * br_recommendedAmount r \<longrightarrow>
                 br_priority r \<noteq> ''high'') \<and>
              br_recommendedAmount r =
                totalSpending resp * spec_guideline_fraction (br_category r))"
proof (cases "transactions = []")
  case True
  then show ?thesis by (simp add: analyze_transactions_def empty_insights_def)
next
  case False
  from analyze_transactions_nonempty [OF False assms(1), of uid]
  obtain resp where run: "analyze_transactions detector transactions uid = Inr resp"
    and recs: "budgetRecommendations resp =
                 generate_budget_recommendations (expense_frame transactions)
                   (spendingPatterns resp)"
    and tot: "totalSpending resp = amount_sum (expense_frame transactions)"
    by blast
  have nonneg: "0 \<le> totalSpending resp"
    using assms(2) by (simp add: tot amount_sum_expense_frame_nonneg)
  have "\<forall>r\<in>set (budgetRecommendations resp).
          (br_priority r = ''high'' \<longleftrightarrow>
             br_currentSpending r > 1.5 * br_recommendedAmount r) \<and>
          (br_priority r = ''medium'' \<longleftrightarrow>
             br_currentSpending r > 1.2 * br_recommendedAmount r \<and>
             \<not> br_currentSpending r > 1.5 * br_recommendedAmount r) \<and>
          (br_priority r = ''low'' \<longleftrightarrow>
             \<not> br_currentSpending r > 1.2 * br_recommendedAmount r) \<and>
          (br_currentSpending r \<le> 1.2 * br_recommendedAmount r \<longrightarrow>
             br_priority r \<noteq> ''high'') \<and>
          br_recommendedAmount r =
            totalSpending resp * spec_guideline_fraction (br_category r)"
  proof
    fix r
    assume "r \<in> set (budgetRecommendations resp)"
    then obtain p where r: "r = budget_recommendation_of (totalSpending resp) p"
      by (auto simp: recs generate_budget_recommendations_def Let_def tot)
    have "0 \<le> totalSpending resp * spec_guideline_fraction (sp_category p)"
      using nonneg spec_guideline_fraction_pos [of "sp_category p"] by simp
    then show "(br_priority r = ''high'' \<longleftrightarrow>
             br_currentSpending r > 1.5 * br_recommendedAmount r) \<and>
          (br_priority r = ''medium'' \<longleftrightarrow>
             br_currentSpending r > 1.2 * br_recommendedAmount r \<and>
             \<not> br_currentSpending r > 1.5 * br_recommendedAmount r) \<and>
          (br_priority r = ''low'' \<longleftrightarrow>
             \<not> br_currentSpending r > 1.2 * br_recommendedAmount r) \<and>
          (br_currentSpending r \<le> 1.2 * br_recommendedAmount r \<longrightarrow>
             br_priority r \<noteq> ''high'') \<and>
          br_recommendedAmount r =
            totalSpending resp * spec_guideline_fraction (br_category r)"
      unfolding r budget_recommendation_of_fields budget_recommendation_of_priority
      by auto
  qed
  with run show ?thesis by blast
qed

theorem C4_witness:
  "sklearn_contract threshold_detector \<and> list_all schema_valid sample_transactions \<and>
   (\<exists>resp. analyze_transactions threshold_detector sample_transactions ''user123'' = Inr resp \<and>
      map br_priority (budgetRecommendations resp) = [''high'', ''high''] \<and>
      (\<forall>r\<in>set (budgetRecommendations resp).
         br_currentSpending r > 1.5 * br_recommendedAmount r \<and>
         br_recommendedAmount r = 150 * spec_guideline_fraction (br_category r)))"
proof -
  have ne: "sample_transactions \<noteq> []" by (simp add: sample_transactions_def)
  from C4_budget_priority [OF sklearn_contract_threshold sample_valid, of "''user123''"]
  obtain resp where run: "analyze_transactions threshold_detector sample_transactions ''user123'' = Inr resp"
    and c4: "\<forall>r\<in>set (budgetRecommendations resp).
              (br_priority r = ''high'' \<longleftrightarrow>
                 br_currentSpending r > 1.5 * br_recommendedAmount r) \<and>
              br_recommendedAmount r =
                totalSpending resp * spec_guideline_fraction (br_category r)"
    by blast
  from analyze_transactions_nonempty [OF ne sklearn_contract_threshold, of "''user123''"] run
  have pats: "spendingPatterns resp = analyze_spending_patterns (expense_frame sample_transactions)"
    and recs: "budgetRecommendations resp =
             generate_budget_recommendations (expense_frame sample_transactions)
               (spendingPatterns resp)"
    and tot: "totalSpending resp = amount_sum (expense_frame sample_transactions)"
    by auto
  have tot': "totalSpending resp = 150"
    by (simp add: tot sample_frame amount_sum_def)
  have recs': "budgetRecommendations resp =
      [budget_recommendation_of 150
         \<lparr>sp_category = ''transport'', sp_totalAmount = 100, sp_transactionCount = 1,
          sp_averageAmount = 100, sp_percentage = 200 / 3\<rparr>,
       budget_recommendation_of 150
         \<lparr>sp_category = ''food'', sp_totalAmount = 50, sp_transactionCount = 1,
          sp_averageAmount = 50, sp_percentage = 100 / 3\<rparr>]"
    by (simp add: recs pats sample_patterns generate_budget_recommendations_def
        tot [symmetric] tot')
  have prio: "map br_priority (budgetRecommendations resp) = [''high'', ''high'']"
    by (simp add: recs' budget_recommendation_of_priority spec_guideline_fraction_def)
  then have "\<forall>r\<in>set (budgetRecommendations resp). br_priority r = ''high''"
    by (simp add: recs')
  with c4 tot' run prio sklearn_contract_threshold sample_valid_all show ?thesis by auto
qed

subsection \<open>C5: order of the category health list\<close>

text \<open>
  Claim C5. The category health list of the response has all its "bad" entries first,
  then all its "warning" entries, then all its "good" entries, and inside each tier the
  entries are in the order of the spending patterns they were computed from: the list is
  the "bad" entries of the pattern-ordered list, followed by its "warning" entries,
  followed by its "good" entries.
\<close>

theorem C5_health_order:
  assumes "sklearn_contract detector"
  shows "\<exists>resp. analyze_transactions detector transactions uid = Inr resp \<and>
           categoryHealth resp =
             filter (\<lambda>h. ch_status h = ''bad'') (map category_health_of (spendingPatterns resp)) @
             filter (\<lambda>h. ch_status h = ''warning'') (map category_health_of (spendingPatterns resp)) @
             filter (\<lambda>h. ch_status h = ''good'') (map category_health_of (spendingPatterns resp))"
proof (cases "transactions = []")
  case True
  then show ?thesis by (simp add: analyze_transactions_def empty_insights_def)
next
  case False
  from analyze_transactions_nonempty [OF False assms, of uid]
  obtain resp where run: "analyze_transactions detector transactions uid = Inr resp"
    and h: "categoryHealth resp =
              sort_key status_key (map category_health_of (spendingPatterns resp))"
    by blast
  have "\<forall>y\<in>set (map category_health_of (spendingPatterns resp)). status_key y < 3"
    by (auto simp: status_key_lt)
  from sort_key_three_tiers [OF this] run h show ?thesis
    by (simp only: filter_status_key) simp
qed

theorem C5_witness:
  "sklearn_contract threshold_detector \<and>
   (\<exists>resp. analyze_transactions threshold_detector seven_categories ''user123'' = Inr resp \<and>
      map sp_category (spendingPatterns resp) =
        [''food'', ''utilities'', ''transport'', ''healthcare'', ''entertainment'',
         ''shopping'', ''other''] \<and>
      map (\<lambda>h. (ch_category h, ch_status h)) (categoryHealth resp) =
        [(''healthcare'', ''bad''), (''entertainment'', ''bad''), (''other'', ''bad''),
         (''utilities'', ''warning''), (''transport'', ''warning''), (''shopping'', ''warning''),
         (''food'', ''good'')])"
proof -
  have ne: "seven_categories \<noteq> []" by (simp add: seven_categories_def)
  from C5_health_order [OF sklearn_contract_threshold, of seven_categories "''user123''"]
  obtain resp
    where run: "analyze_transactions threshold_detector seven_categories ''user123'' = Inr resp"
    and c5: "categoryHealth resp =
             filter (\<lambda>h. ch_status h = ''bad'')
               (map category_health_of (spendingPatterns resp)) @
             filter (\<lambda>h. ch_status h = ''warning'')
               (map category_health_of (spendingPatterns resp)) @
             filter (\<lambda>h. ch_status h = ''good'')
               (map category_health_of (spendingPatterns resp))"
    by blast
  from analyze_transactions_nonempty [OF ne sklearn_contract_threshold, of "''user123''"] run
  have pats: "spendingPatterns resp = analyze_spending_patterns (expense_frame seven_categories)"
    by auto
  have cats: "map sp_category (spendingPatterns resp) =
        [''food'', ''utilities'', ''transport'', ''healthcare'', ''entertainment'',
         ''shopping'', ''other'']"
    by (simp only: pats seven_patterns)
  have hl: "map (\<lambda>h. (ch_category h, ch_status h)) (categoryHealth resp) =
        [(''healthcare'', ''bad''), (''entertainment'', ''bad''), (''other'', ''bad''),
         (''utilities'', ''warning''), (''transport'', ''warning''), (''shopping'', ''warning''),
         (''food'', ''good'')]"
    by (simp only: c5 pats seven_health)
  show ?thesis
  proof (intro conjI exI)
    show "sklearn_contract threshold_detector" by (rule sklearn_contract_threshold)
    show "analyze_transactions threshold_detector seven_categories ''user123'' = Inr resp"
      by (rule run)
    show "map sp_category (spendingPatterns resp) =
        [''food'', ''utilities'', ''transport'', ''healthcare'', ''entertainment'',
         ''shopping'', ''other'']" by (rule cats)
    show "map (\<lambda>h. (ch_category h, ch_status h)) (categoryHealth resp) =
        [(''healthcare'', ''bad''), (''entertainment'', ''bad''), (''other'', ''bad''),
         (''utilities'', ''warning''), (''transport'', ''warning''), (''shopping'', ''warning''),
         (''food'', ''good'')]" by (rule hl)
  qed
qed

subsection \<open>C8: the savings opportunities\<close>

text \<open>
  Claim C8. On a non-empty input the list of savings opportunities has at most 5 entries.
  It is made of at most 3 reduction strings (from the first three high-priority
  recommendations, those whose current spend exceeds the recommended amount), followed
  by one consolidation string per spending pattern with more than 20 transactions of
  average amount below 10, the whole cut to its first 5 entries; and it is the single
  string "Your spending is well-balanced. Keep up the good work!" if and only if neither
  rule produced a string.
\<close>

theorem C8_savings_opportunities:
  assumes "sklearn_contract detector" and "transactions \<noteq> []"
  shows "\<exists>resp. analyze_transactions detector transactions uid = Inr resp \<and>
           length (savingsOpportunities resp) \<le> 5 \<and>
           length (reduction_strings (budgetRecommendations resp)) \<le> 3 \<and>
           savingsOpportunities resp =
             (if reduction_strings (budgetRecommendations resp) @
                 consolidation_strings (spendingPatterns resp) = []
              then [''Your spending is well-balanced. Keep up the good work!'']
              else take 5 (reduction_strings (budgetRecommendations resp) @
                           consolidation_strings (spendingPatterns resp))) \<and>
           (savingsOpportunities resp =
              [''Your spending is well-balanced. Keep up the good work!''] \<longleftrightarrow>
            reduction_strings (budgetRecommendations resp) @
              consolidation_strings (spendingPatterns resp) = [])"
proof -
  from analyze_transactions_nonempty [OF assms(2) assms(1), of uid]
  obtain resp where run: "analyze_transactions detector transactions uid = Inr resp"
    and sav: "savingsOpportunities resp =
                identify_savings_opportunities (spendingPatterns resp) (budgetRecommendations resp)"
    by blast
  define gen where "gen = reduction_strings (budgetRecommendations resp) @
                          consolidation_strings (spendingPatterns resp)"
  have eq: "savingsOpportunities resp = (if gen = [] then [fallback_text] else take 5 gen)"
    unfolding sav gen_def by (rule identify_savings_opportunities_eq)
  have nf: "fallback_text \<notin> set gen"
    unfolding gen_def by (rule generated_not_fallback)
  have len: "length (savingsOpportunities resp) \<le> 5"
    by (simp add: eq)
  have iff: "savingsOpportunities resp = [fallback_text] \<longleftrightarrow> gen = []"
  proof
    assume a: "savingsOpportunities resp = [fallback_text]"
    show "gen = []"
    proof (rule ccontr)
      assume "gen \<noteq> []"
      with a eq have "take 5 gen = [fallback_text]" by simp
      then have "fallback_text \<in> set (take 5 gen)" by simp
      then have "fallback_text \<in> set gen" by (rule in_set_takeD)
      with nf show False by simp
    qed
  next
    assume "gen = []"
    then show "savingsOpportunities resp = [fallback_text]" by (simp add: eq)
  qed
  from run len length_reduction_strings [of "budgetRecommendations resp"] eq iff
  show ?thesis
    unfolding gen_def fallback_text_def by blast
qed

theorem C8_witness:
  "sklearn_contract threshold_detector \<and> many_small_purchases \<noteq> [] \<and>
   (\<exists>resp. analyze_transactions threshold_detector many_small_purchases ''user123'' = Inr resp \<and>
      savingsOpportunities resp =
        [''Reduce shopping spending by $441.60/month to meet budget goals'',
         ''Consolidate small food purchases to save up to $25.20/month''])"
proof -
  have ne: "many_small_purchases \<noteq> []" by (simp add: many_small_purchases_def)
  from C8_savings_opportunities [OF sklearn_contract_threshold ne, of "''user123''"]
  obtain resp
    where c8all: "analyze_transactions threshold_detector many_small_purchases ''user123'' = Inr resp \<and>
           length (savingsOpportunities resp) \<le> 5 \<and>
           length (reduction_strings (budgetRecommendations resp)) \<le> 3 \<and>
           savingsOpportunities resp =
             (if reduction_strings (budgetRecommendations resp) @
                 consolidation_strings (spendingPatterns resp) = []
              then [''Your spending is well-balanced. Keep up the good work!'']
              else take 5 (reduction_strings (budgetRecommendations resp) @
                           consolidation_strings (spendingPatterns resp))) \<and>
           (savingsOpportunities resp =
              [''Your spending is well-balanced. Keep up the good work!''] \<longleftrightarrow>
            reduction_strings (budgetRecommendations resp) @
              consolidation_strings (spendingPatterns resp) = [])" ..
  from c8all
  have run: "analyze_transactions threshold_detector many_small_purchases ''user123'' = Inr resp"
    by (rule conjunct1)
  from c8all
  have c8: "savingsOpportunities resp =
             (if reduction_strings (budgetRecommendations resp) @
                 consolidation_strings (spendingPatterns resp) = []
              then [''Your spending is well-balanced. Keep up the good work!'']
              else take 5 (reduction_strings (budgetRecommendations resp) @
                           consolidation_strings (spendingPatterns resp)))"
    by (elim conjE)
  from analyze_transactions_nonempty [OF ne sklearn_contract_threshold, of "''user123''"] run
  have pats: "spendingPatterns resp =
                analyze_spending_patterns (expense_frame many_small_purchases)"
    and recs: "budgetRecommendations resp =
                 generate_budget_recommendations (expense_frame many_small_purchases)
                   (spendingPatterns resp)"
    by auto
  have red: "reduction_strings (budgetRecommendations resp) =
     [''Reduce shopping spending by $441.60/month to meet budget goals'']"
    unfolding recs pats by (rule many_small_reductions)
  have con: "consolidation_strings (spendingPatterns resp) =
     [''Consolidate small food purchases to save up to $25.20/month'']"
    unfolding pats by (rule many_small_consolidations)
  have sav: "savingsOpportunities resp =
        [''Reduce shopping spending by $441.60/month to meet budget goals'',
         ''Consolidate small food purchases to save up to $25.20/month'']"
    unfolding c8 red con by simp
  show ?thesis
  proof (intro conjI exI)
    show "sklearn_contract threshold_detector" by (rule sklearn_contract_threshold)
    show "many_small_purchases \<noteq> []" by (rule ne)
    show "analyze_transactions threshold_detector many_small_purchases ''user123'' = Inr resp"
      by (rule run)
    show "savingsOpportunities resp =
        [''Reduce shopping spending by $441.60/month to meet budget goals'',
         ''Consolidate small food purchases to save up to $25.20/month'']" by (rule sav)
  qed
qed

subsection \<open>C10: a high-priority recommendation always has a positive excess\<close>

text \<open>
  Claim C10. When every amount is positive (as the schema requires), every budget
  recommendation of priority "high" has a current spending strictly above its recommended
  amount, so the guard \<open>excess > 0\<close> of the savings synthesizer never rejects one: the
  list of savings opportunities starts with one reduction string for each of the first
  three high-priority recommendations, in their order.
\<close>

theorem C10_high_priority_excess:
  assumes "sklearn_contract detector" and "\<forall>t\<in>set transactions. schema_valid t"
  shows "\<exists>resp. analyze_transactions detector transactions uid = Inr resp \<and>
           (\<forall>r\<in>set (budgetRecommendations resp).
              br_priority r = ''high'' \<longrightarrow> 0 < br_currentSpending r - br_recommendedAmount r) \<and>
           take (length (take 3 (filter (\<lambda>r. br_priority r = ''high'')
                                  (budgetRecommendations resp))))
             (savingsOpportunities resp) =
             map (\<lambda>r. reduce_text (br_category r)
                        (br_currentSpending r - br_recommendedAmount r))
               (take 3 (filter (\<lambda>r. br_priority r = ''high'') (budgetRecommendations resp)))"
proof (cases "transactions = []")
  case True
  then show ?thesis by (simp add: analyze_transactions_def empty_insights_def)
next
  case False
  from analyze_transactions_nonempty [OF False assms(1), of uid]
  obtain resp where run: "analyze_transactions detector transactions uid = Inr resp"
    and recs: "budgetRecommendations resp =
                 generate_budget_recommendations (expense_frame transactions)
                   (spendingPatterns resp)"
    and sav: "savingsOpportunities resp =
                identify_savings_opportunities (spendingPatterns resp) (budgetRecommendations resp)"
    by blast
  have nonneg: "0 \<le> amount_sum (expense_frame transactions)"
    using assms(2) by (rule amount_sum_expense_frame_nonneg)
  have pos: "\<forall>r\<in>set (budgetRecommendations resp).
               br_priority r = ''high'' \<longrightarrow> br_recommendedAmount r < br_currentSpending r"
    using high_priority_excess [OF nonneg]
    by (auto simp: recs generate_budget_recommendations_def Let_def)
  define hp3 where "hp3 = take 3 (filter (\<lambda>r. br_priority r = ''high'') (budgetRecommendations resp))"
  have "\<forall>r\<in>set hp3. br_recommendedAmount r < br_currentSpending r"
    using pos unfolding hp3_def by (auto dest: in_set_takeD)
  then have keep: "filter (\<lambda>r. br_currentSpending r > br_recommendedAmount r) hp3 = hp3"
    by (simp add: filter_id_conv)
  define A where "A = map (\<lambda>r. reduce_text (br_category r)
                        (br_currentSpending r - br_recommendedAmount r)) hp3"
  have red: "reduction_strings (budgetRecommendations resp) = A"
    unfolding reduction_strings_def hp3_def [symmetric] keep A_def ..
  have lenA: "length A = length hp3" "length hp3 \<le> 3"
    by (simp_all add: A_def hp3_def)
  have pre: "take (length hp3) (savingsOpportunities resp) = A"
  proof (cases "hp3 = []")
    case True
    then show ?thesis by (simp add: A_def)
  next
    case False
    then have "A \<noteq> []" by (simp add: A_def)
    then have "savingsOpportunities resp = take 5 (A @ consolidation_strings (spendingPatterns resp))"
      by (simp add: sav identify_savings_opportunities_eq red)
    then show ?thesis using lenA by (simp add: min_def)
  qed
  have pos': "\<forall>r\<in>set (budgetRecommendations resp).
               br_priority r = ''high'' \<longrightarrow> 0 < br_currentSpending r - br_recommendedAmount r"
    using pos by simp
  show ?thesis
  proof (intro exI conjI)
    show "analyze_transactions detector transactions uid = Inr resp" by (rule run)
    show "\<forall>r\<in>set (budgetRecommendations resp).
            br_priority r = ''high'' \<longrightarrow> 0 < br_currentSpending r - br_recommendedAmount r"
      by (rule pos')
    show "take (length (take 3 (filter (\<lambda>r. br_priority r = ''high'')
                                  (budgetRecommendations resp))))
             (savingsOpportunities resp) =
             map (\<lambda>r. reduce_text (br_category r)
                        (br_currentSpending r - br_recommendedAmount r))
               (take 3 (filter (\<lambda>r. br_priority r = ''high'') (budgetRecommendations resp)))"
      using pre unfolding hp3_def A_def .
  qed
qed


theorem C10_witness:
  "sklearn_contract threshold_detector \<and> list_all schema_valid sample_transactions \<and>
   (\<exists>resp. analyze_transactions threshold_detector sample_transactions ''user123'' = Inr resp \<and>
      map br_priority (budgetRecommendations resp) = [''high'', ''high''] \<and>
      (\<forall>r\<in>set (budgetRecommendations resp).
         0 < br_currentSpending r - br_recommendedAmount r) \<and>
      take 2 (savingsOpportunities resp) =
        [''Reduce transport spending by $85.00/month to meet budget goals'',
         ''Reduce food spending by $27.50/month to meet budget goals''])"
proof -
  have ne: "sample_transactions \<noteq> []" by (simp add: sample_transactions_def)
  from C10_high_priority_excess [OF sklearn_contract_threshold sample_valid, of "''user123''"]
  obtain resp
    where run: "analyze_transactions threshold_detector sample_transactions ''user123'' = Inr resp"
    and pos: "\<forall>r\<in>set (budgetRecommendations resp).
              br_priority r = ''high'' \<longrightarrow> 0 < br_currentSpending r - br_recommendedAmount r"
    and pre: "take (length (take 3 (filter (\<lambda>r. br_priority r = ''high'')
                                  (budgetRecommendations resp))))
             (savingsOpportunities resp) =
             map (\<lambda>r. reduce_text (br_category r)
                        (br_currentSpending r - br_recommendedAmount r))
               (take 3 (filter (\<lambda>r. br_priority r = ''high'') (budgetRecommendations resp)))"
    by blast
  from analyze_transactions_nonempty [OF ne sklearn_contract_threshold, of "''user123''"] run
  have recs: "budgetRecommendations resp =
               generate_budget_recommendations (expense_frame sample_transactions)
                 (analyze_spending_patterns (expense_frame sample_transactions))"
    by auto
  have prio: "map br_priority (budgetRecommendations resp) = [''high'', ''high'']"
    by (simp add: recs sample_recommendations budget_recommendation_of_priority
        spec_guideline_fraction_def)
  have all_high: "\<forall>r\<in>set (budgetRecommendations resp). br_priority r = ''high''"
    by (simp add: recs sample_recommendations budget_recommendation_of_priority
        spec_guideline_fraction_def)
  with pos have pos': "\<forall>r\<in>set (budgetRecommendations resp).
         0 < br_currentSpending r - br_recommendedAmount r"
    by simp
  have len: "length (generate_budget_recommendations (expense_frame sample_transactions)
                 (analyze_spending_patterns (expense_frame sample_transactions))) = 2"
    by (simp add: sample_recommendations)
  have sav: "take 2 (savingsOpportunities resp) =
        [''Reduce transport spending by $85.00/month to meet budget goals'',
         ''Reduce food spending by $27.50/month to meet budget goals'']"
    using pre unfolding recs sample_high_priority len sample_reduce_texts .
  show ?thesis
  proof (intro conjI exI)
    show "sklearn_contract threshold_detector" by (rule sklearn_contract_threshold)
    show "list_all schema_valid sample_transactions" by (rule sample_valid_all)
    show "analyze_transactions threshold_detector sample_transactions ''user123'' = Inr resp"
      by (rule run)
    show "map br_priority (budgetRecommendations resp) = [''high'', ''high'']" by (rule prio)
    show "\<forall>r\<in>set (budgetRecommendations resp).
         0 < br_currentSpending r - br_recommendedAmount r" by (rule pos')
    show "take 2 (savingsOpportunities resp) =
        [''Reduce transport spending by $85.00/month to meet budget goals'',
         ''Reduce food spending by $27.50/month to meet budget goals'']" by (rule sav)
  qed
qed

subsection \<open>C2: the transaction reported by an anomaly\<close>

text \<open>
  Claim C2 says that an anomaly carries the id, amount, category and date of the flagged
  transaction itself, also when income transactions are interleaved with the expenses.
  The code does not do so: the loop index counts the rows of the expense subset, and
  \<open>transactions[idx]\<close> reads the whole input at that index. On one income transaction
  followed by ten expenses, with the first expense (id \<open>e0\<close>, amount 1000, shopping)
  labelled as the outlier, the anomaly emitted carries the id, amount, category and date
  of the income transaction \<open>salary\<close>, and its reason compares the income amount with the
  mean of the expense rows of category "other", of which there is none.
\<close>

theorem C2_anomaly_reports_other_transaction:
  "\<exists>resp. analyze_transactions threshold_detector interleaved_transactions ''user123'' = Inr resp \<and>
     fit_predict threshold_detector (map r_amount (expense_frame interleaved_transactions)) =
       [- 1, 1, 1, 1, 1, 1, 1, 1, 1, 1] \<and>
     expense_frame interleaved_transactions ! 0 =
       \<lparr>r_id = Some ''e0'', r_type = Some ''EXPENSE'', r_amount = 1000,
        r_category = ''shopping'', r_description = [], r_date = 86400000000,
        r_userId = ''user123''\<rparr> \<and>
     anomalies resp =
       [\<lparr>an_transactionId = ''salary'', an_amount = 5000, an_category = ''other'',
         an_date = 0, an_anomalyScore = 1,
         an_reason = ''Amount is $nan away from average other spending''\<rparr>]"
proof -
  have ne: "interleaved_transactions \<noteq> []" by (simp add: interleaved_transactions_def)
  have an: "anomalies (projr (analyze_transactions threshold_detector interleaved_transactions ''user123'')) =
      [\<lparr>an_transactionId = ''salary'', an_amount = 5000, an_category = ''other'',
         an_date = 0, an_anomalyScore = 1,
         an_reason = ''Amount is $nan away from average other spending''\<rparr>]"
    unfolding analyze_transactions_unfold [OF ne interleaved_anomalies] by simp
  have run: "analyze_transactions threshold_detector interleaved_transactions ''user123'' =
        Inr (projr (analyze_transactions threshold_detector interleaved_transactions ''user123''))"
    unfolding analyze_transactions_unfold [OF ne interleaved_anomalies] by simp
  show ?thesis
  proof (intro exI conjI)
    show "analyze_transactions threshold_detector interleaved_transactions ''user123'' =
        Inr (projr (analyze_transactions threshold_detector interleaved_transactions ''user123''))"
      by (rule run)
    show "fit_predict threshold_detector (map r_amount (expense_frame interleaved_transactions)) =
       [- 1, 1, 1, 1, 1, 1, 1, 1, 1, 1]" by (rule interleaved_labels)
    show "expense_frame interleaved_transactions ! 0 =
       \<lparr>r_id = Some ''e0'', r_type = Some ''EXPENSE'', r_amount = 1000,
        r_category = ''shopping'', r_description = [], r_date = 86400000000,
        r_userId = ''user123''\<rparr>" by (rule interleaved_flagged_row)
    show "anomalies (projr (analyze_transactions threshold_detector interleaved_transactions ''user123'')) =
       [\<lparr>an_transactionId = ''salary'', an_amount = 5000, an_category = ''other'',
         an_date = 0, an_anomalyScore = 1,
         an_reason = ''Amount is $nan away from average other spending''\<rparr>]" by (rule an)
  qed
qed

end
